theory Spec2Isabelle
  imports Complex_Main "HOL-Library.Sublist"
begin

section \<open>Python values used by \<open>app.py\<close>\<close>

subsection \<open>Strings\<close>

text \<open>
  A Python \<open>str\<close> is modelled by its UTF-8 encoding, one \<open>char\<close> per byte. The program
  only compares strings for equality and passes them on, and UTF-8 is injective, so every
  comparison has the same outcome as on code points. Bytes outside printable ASCII are
  written \<open>CHR 0x..\<close>.
\<close>

abbreviation nl :: string where
  "nl \<equiv> [CHR 0x0A]"

subsection \<open>Exceptions and results\<close>

text \<open>
  A raised object carries what the handler can observe of it: whether it is an instance
  of \<open>Exception\<close> (the class the \<open>except\<close> clause of \<open>predict\<close> names; \<open>KeyboardInterrupt\<close>,
  \<open>SystemExit\<close> and \<open>GeneratorExit\<close> derive from \<open>BaseException\<close> only) and its \<open>str(e)\<close>.
  A call that may raise returns \<open>pyexn + 'a\<close>, with \<open>Inl\<close> the raised object.
\<close>

datatype pyexn = Raised (is_Exception: bool) (exn_str: string)

subsection \<open>Floats\<close>

text \<open>
  A Python \<open>float\<close> is an IEEE 754 binary64 value. Finite values are modelled by the
  rational they denote (the two zeros are identified: no float computed by the program
  depends on the sign of a zero), and an arithmetic result is the exact rational result
  rounded to the nearest binary64 value, ties to even, overflowing to an infinity.
\<close>

datatype pyfloat = Finite rat | PosInf | NegInf | NaN

definition round_half_even :: "rat \<Rightarrow> int" where
  "round_half_even q =
     (let f = \<lfloor>q\<rfloor>; d = q - of_int f
      in if d < 1 / 2 then f else if 1 / 2 < d then f + 1 else if even f then f else f + 1)"

text \<open>The number of binary digits of a positive integer (Python's \<open>int.bit_length\<close>).\<close>

function bit_length :: "int \<Rightarrow> int" where
  "bit_length n = (if n \<le> 0 then 0 else 1 + bit_length (n div 2))"
  by auto
termination
  by (relation "measure nat") auto

declare bit_length.simps [simp del]

text \<open>
  \<open>binade x\<close> is the exponent \<open>k\<close> with \<open>2^k \<le> x < 2^(k+1)\<close>, for \<open>x > 0\<close>: the difference of
  the bit lengths of numerator and denominator, or one less.
\<close>

definition binade :: "rat \<Rightarrow> int" where
  "binade x =
     (let (a, b) = quotient_of x;
          d = bit_length a - bit_length b
      in if 2 powi d \<le> x then d else d - 1)"

text \<open>
  Rounding to binary64: the significand has 53 bits, so the spacing of the values around
  \<open>x\<close> is \<open>2^(binade x - 52)\<close>, and never less than the subnormal spacing \<open>2^(-1074)\<close>; a
  rounded magnitude of \<open>2^1024\<close> or more overflows.
\<close>

definition round_double :: "rat \<Rightarrow> pyfloat" where
  "round_double x =
     (if x = 0 then Finite 0
      else let e = max (binade \<bar>x\<bar> - 52) (- 1074);
               y = of_int (round_half_even (\<bar>x\<bar> / 2 powi e)) * 2 powi e
           in if 2 powi 1024 \<le> y then (if 0 < x then PosInf else NegInf)
              else Finite (sgn x * y))"

text \<open>\<open>a - b\<close> on floats.\<close>

fun fsub :: "pyfloat \<Rightarrow> pyfloat \<Rightarrow> pyfloat" where
  "fsub NaN _ = NaN"
| "fsub _ NaN = NaN"
| "fsub (Finite a) (Finite b) = round_double (a - b)"
| "fsub (Finite a) PosInf = NegInf"
| "fsub (Finite a) NegInf = PosInf"
| "fsub PosInf PosInf = NaN"
| "fsub PosInf _ = PosInf"
| "fsub NegInf NegInf = NaN"
| "fsub NegInf _ = NegInf"

text \<open>\<open>a > b\<close> on floats: every comparison with a NaN is false.\<close>

fun fgt :: "pyfloat \<Rightarrow> pyfloat \<Rightarrow> bool" where
  "fgt NaN _ = False"
| "fgt _ NaN = False"
| "fgt (Finite a) (Finite b) = (b < a)"
| "fgt (Finite a) PosInf = False"
| "fgt (Finite a) NegInf = True"
| "fgt PosInf PosInf = False"
| "fgt PosInf _ = True"
| "fgt NegInf _ = False"


subsection \<open>Effects\<close>

text \<open>
  The calls the program makes outside its own code are recorded in the order they are
  made. A computation returns the calls it made and either the raised object or its value.
\<close>

datatype step =
    PathExists string
  | LoadModel string
  | FileRead
  | ImageOpen
  | ConvertRGB
  | Resize "int option list"
  | ImgToArray
  | ExpandDims
  | PreprocessInput
  | ModelPredict

type_synonym 'a io = "step list \<times> (pyexn + 'a)"

definition ret :: "'a \<Rightarrow> 'a io" where
  "ret x = ([], Inr x)"

definition call :: "step \<Rightarrow> pyexn + 'a \<Rightarrow> 'a io" where
  "call s r = ([s], r)"

text \<open>Sequencing: a raised object ends the computation; the later calls are not made.\<close>

definition bind_io :: "'a io \<Rightarrow> ('a \<Rightarrow> 'b io) \<Rightarrow> 'b io" where
  "bind_io m f =
     (case m of
        (t, Inl e) \<Rightarrow> (t, Inl e)
      | (t, Inr x) \<Rightarrow> (case f x of (t', r) \<Rightarrow> (t @ t', r)))"

text \<open>
  \<open>try: body except Exception as e: handler(e)\<close>: an instance of \<open>Exception\<close> raised by the
  body is handled, any other raised object propagates.
\<close>

definition try_except :: "'a io \<Rightarrow> (pyexn \<Rightarrow> 'a io) \<Rightarrow> 'a io" where
  "try_except body handler =
     (case body of
        (t, Inl e) \<Rightarrow>
          (if is_Exception e then (case handler e of (t', r) \<Rightarrow> (t @ t', r)) else (t, Inl e))
      | (t, Inr x) \<Rightarrow> (t, Inr x))"

section \<open>The program\<close>

subsection \<open>Data\<close>

text \<open>
  The Keras model object, as far as the program uses it: its \<open>input_shape\<close> attribute (a
  tuple whose entries are integers or \<open>None\<close>) and its \<open>predict\<close> method, which returns
  a two-dimensional array of floats or raises. Uploaded bytes, images and arrays are
  opaque to the program: they are the type parameters \<open>'b\<close>, \<open>'i\<close> and \<open>'a\<close>.
\<close>

record 'a keras_model =
  model_input_shape :: "int option list"
  model_predict :: "'a \<Rightarrow> pyexn + pyfloat list list"

text \<open>The module's globals \<open>model\<close> and \<open>input_shape\<close>.\<close>

record 'a globals =
  model :: "'a keras_model option"
  input_shape :: "int option list"

text \<open>
  An uploaded file (werkzeug's \<open>FileStorage\<close>): its \<open>filename\<close> and what \<open>file.read()\<close>
  gives. \<open>request.files\<close> is a multi-dict: the pairs in the order received, the first
  pair of a key being the one a lookup returns.
\<close>

record 'b file_storage =
  filename :: string
  read :: "pyexn + 'b"

record 'b request =
  files :: "(string \<times> 'b file_storage) list"

text \<open>
  The library functions of the inference path: \<open>Image.open(io.BytesIO(b))\<close>,
  \<open>img.convert('RGB')\<close>, \<open>img.resize(shape)\<close>, \<open>image.img_to_array\<close>,
  \<open>np.expand_dims(_, axis=0)\<close> and Xception's \<open>preprocess_input\<close>. Each may raise.
\<close>

record ('b, 'i, 'a) libs =
  Image_open :: "'b \<Rightarrow> pyexn + 'i"
  convert_RGB :: "'i \<Rightarrow> pyexn + 'i"
  resize :: "'i \<Rightarrow> int option list \<Rightarrow> pyexn + 'i"
  img_to_array :: "'i \<Rightarrow> pyexn + 'a"
  expand_dims :: "'a \<Rightarrow> pyexn + 'a"
  preprocess_input :: "'a \<Rightarrow> pyexn + 'a"

text \<open>
  A response: a JSON object (the dict given to \<open>jsonify\<close>, as its key and value pairs) or
  an HTML document, and the HTTP status.
\<close>

datatype jvalue = JStr string | JNum pyfloat

datatype payload = Json "(string \<times> jvalue) list" | Html string

record response =
  payload :: payload
  status :: nat

text \<open>\<open>jsonify(d)\<close> answers with status 200; \<open>return jsonify(d), s\<close> sets the status \<open>s\<close>.\<close>

definition jsonify :: "(string \<times> jvalue) list \<Rightarrow> response" where
  "jsonify d = \<lparr>payload = Json d, status = 200\<rparr>"

definition with_status :: "response \<Rightarrow> nat \<Rightarrow> response" where
  "with_status r s = r\<lparr>status := s\<rparr>"

text \<open>The value of a key of a JSON response; \<open>None\<close> when there is none.\<close>

definition json_get :: "response \<Rightarrow> string \<Rightarrow> jvalue option" where
  "json_get r k = (case payload r of Json d \<Rightarrow> map_of d k | Html _ \<Rightarrow> None)"

definition json_keys :: "response \<Rightarrow> string list" where
  "json_keys r = (case payload r of Json d \<Rightarrow> map fst d | Html _ \<Rightarrow> [])"

subsection \<open>String constants\<close>

text \<open>The two labels (lines 131 and 134) and the three messages (lines 105, 108, 112).\<close>

definition label_dog :: string where
  "label_dog =
     [CHR 0xEA, CHR 0xB0, CHR 0x95, CHR 0xEC, CHR 0x95, CHR 0x84, CHR 0xEC, CHR 0xA7,
     CHR 0x80] @ '' '' @ [CHR 0xF0, CHR 0x9F, CHR 0x90, CHR 0xB6]"

definition label_cat :: string where
  "label_cat =
     [CHR 0xEA, CHR 0xB3, CHR 0xA0, CHR 0xEC, CHR 0x96, CHR 0x91, CHR 0xEC, CHR 0x9D,
     CHR 0xB4] @ '' '' @ [CHR 0xF0, CHR 0x9F, CHR 0x90, CHR 0xB1]"

definition msg_model_not_loaded :: string where
  "msg_model_not_loaded =
     [CHR 0xEB, CHR 0xAA, CHR 0xA8, CHR 0xEB, CHR 0x8D, CHR 0xB8, CHR 0xEC, CHR 0x9D,
     CHR 0xB4] @ '' '' @ [CHR 0xEB, CHR 0xA1, CHR 0x9C, CHR 0xEB, CHR 0x93, CHR 0x9C,
     CHR 0xEB, CHR 0x90, CHR 0x98, CHR 0xEC, CHR 0xA7, CHR 0x80] @ '' '' @ [CHR 0xEC,
     CHR 0x95, CHR 0x8A, CHR 0xEC, CHR 0x95, CHR 0x98, CHR 0xEC, CHR 0x8A, CHR 0xB5, CHR 0xEB,
     CHR 0x8B, CHR 0x88, CHR 0xEB, CHR 0x8B, CHR 0xA4] @ ''. '' @ [CHR 0xEC, CHR 0x84,
     CHR 0x9C, CHR 0xEB, CHR 0xB2, CHR 0x84] @ '' '' @ [CHR 0xEC, CHR 0x84, CHR 0xA4,
     CHR 0xEC, CHR 0xA0, CHR 0x95, CHR 0xEC, CHR 0x9D, CHR 0x84] @ '' '' @ [CHR 0xED,
     CHR 0x99, CHR 0x95, CHR 0xEC, CHR 0x9D, CHR 0xB8, CHR 0xED, CHR 0x95, CHR 0x98, CHR 0xEC,
     CHR 0x84, CHR 0xB8, CHR 0xEC, CHR 0x9A, CHR 0x94] @ ''.''"

definition msg_no_file_part :: string where
  "msg_no_file_part =
     [CHR 0xEC, CHR 0x9C, CHR 0xA0, CHR 0xED, CHR 0x9A, CHR 0xA8, CHR 0xED, CHR 0x95,
     CHR 0x9C] @ '' '' @ [CHR 0xED, CHR 0x8C, CHR 0x8C, CHR 0xEC, CHR 0x9D, CHR 0xBC,
     CHR 0xEC, CHR 0x9D, CHR 0xB4] @ '' '' @ [CHR 0xEC, CHR 0xA0, CHR 0x84, CHR 0xEC,
     CHR 0x86, CHR 0xA1, CHR 0xEB, CHR 0x90, CHR 0x98, CHR 0xEC, CHR 0xA7, CHR 0x80] @ '' '' @
     [CHR 0xEC, CHR 0x95, CHR 0x8A, CHR 0xEC, CHR 0x95, CHR 0x98, CHR 0xEC, CHR 0x8A,
     CHR 0xB5, CHR 0xEB, CHR 0x8B, CHR 0x88, CHR 0xEB, CHR 0x8B, CHR 0xA4] @ ''.''"

definition msg_no_filename :: string where
  "msg_no_filename =
     [CHR 0xEC, CHR 0x84, CHR 0xA0, CHR 0xED, CHR 0x83, CHR 0x9D, CHR 0xEB, CHR 0x90,
     CHR 0x9C] @ '' '' @ [CHR 0xED, CHR 0x8C, CHR 0x8C, CHR 0xEC, CHR 0x9D, CHR 0xBC,
     CHR 0xEC, CHR 0x9D, CHR 0xB4] @ '' '' @ [CHR 0xEC, CHR 0x97, CHR 0x86, CHR 0xEC,
     CHR 0x8A, CHR 0xB5, CHR 0xEB, CHR 0x8B, CHR 0x88, CHR 0xEB, CHR 0x8B, CHR 0xA4] @ ''.''"

text \<open>\<open>HTML_TEMPLATE\<close> (lines 24 to 96), line by line.\<close>

definition HTML_TEMPLATE :: string where
  "HTML_TEMPLATE = concat
    [nl,
     ''<!DOCTYPE html>'' @ nl,
     ''<html lang='' @ [CHR 0x22] @ ''ko'' @ [CHR 0x22] @ ''>'' @ nl,
     ''<head>'' @ nl,
     ''    <meta charset='' @ [CHR 0x22] @ ''UTF-8'' @ [CHR 0x22] @ ''>'' @ nl,
     ''    <title>'' @ [CHR 0xEA, CHR 0xB0, CHR 0x95, CHR 0xEC, CHR 0x95, CHR 0x84, CHR 0xEC,
       CHR 0xA7, CHR 0x80] @ '' vs '' @ [CHR 0xEA, CHR 0xB3, CHR 0xA0, CHR 0xEC, CHR 0x96,
       CHR 0x91, CHR 0xEC, CHR 0x9D, CHR 0xB4] @ '' '' @ [CHR 0xEB, CHR 0xB6, CHR 0x84,
       CHR 0xEB, CHR 0xA5, CHR 0x98, CHR 0xEA, CHR 0xB8, CHR 0xB0] @ ''</title>'' @ nl,
     ''    <style>'' @ nl,
     ''        body { font-family: '' @ [CHR 0x27] @ ''Segoe UI'' @ [CHR 0x27] @
       '', Tahoma, Geneva, Verdana, sans-serif; text-align: center; margin-top: 50px; bac'' @
       ''kground-color: #f4f4f9; color: #333; }'' @ nl,
     ''        .container { max-width: 600px; margin: auto; padding: 20px; background: '' @
       ''white; border-radius: 10px; box-shadow: 0 4px 8px rgba(0,0,0,0.1); }'' @ nl,
     ''        h1 { color: #5a67d8; }'' @ nl,
     ''        input[type='' @ [CHR 0x22] @ ''file'' @ [CHR 0x22] @
       ''] { margin: 20px 0; }'' @ nl,
     ''        .btn { background-color: #5a67d8; color: white; padding: 10px 20px; bord'' @
       ''er: none; border-radius: 5px; cursor: pointer; font-size: 16px; transition: back'' @
       ''ground-color 0.3s; }'' @ nl,
     ''        .btn:hover { background-color: #434ce6; }'' @ nl,
     ''        #result { margin-top: 20px; font-size: 24px; font-weight: bold; color: #'' @
       ''333; }'' @ nl,
     ''        img { max-width: 100%; border-radius: 10px; margin-top: 20px; display: n'' @
       ''one; margin-left: auto; margin-right: auto; }'' @ nl,
     ''        .loading { color: #888; font-style: italic; font-size: 18px; }'' @ nl,
     ''    </style>'' @ nl,
     ''</head>'' @ nl,
     ''<body>'' @ nl,
     ''    <div class='' @ [CHR 0x22] @ ''container'' @ [CHR 0x22] @ ''>'' @ nl,
     ''        <h1>'' @ [CHR 0xF0, CHR 0x9F, CHR 0x90, CHR 0xB1] @ '' '' @ [CHR 0xEA,
       CHR 0xB0, CHR 0x95, CHR 0xEC, CHR 0x95, CHR 0x84, CHR 0xEC, CHR 0xA7, CHR 0x80] @
       '' vs '' @ [CHR 0xEA, CHR 0xB3, CHR 0xA0, CHR 0xEC, CHR 0x96, CHR 0x91, CHR 0xEC,
       CHR 0x9D, CHR 0xB4] @ '' '' @ [CHR 0xEB, CHR 0xB6, CHR 0x84, CHR 0xEB, CHR 0xA5,
       CHR 0x98, CHR 0xEA, CHR 0xB8, CHR 0xB0] @ '' '' @ [CHR 0xF0, CHR 0x9F, CHR 0x90,
       CHR 0xB6] @ ''</h1>'' @ nl,
     ''        <p>'' @ [CHR 0xEC, CHR 0x9D, CHR 0xB4, CHR 0xEB, CHR 0xAF, CHR 0xB8, CHR 0xEC,
       CHR 0xA7, CHR 0x80, CHR 0xEB, CHR 0xA5, CHR 0xBC] @ '' '' @ [CHR 0xEC, CHR 0x97,
       CHR 0x85, CHR 0xEB, CHR 0xA1, CHR 0x9C, CHR 0xEB, CHR 0x93, CHR 0x9C, CHR 0xED, CHR 0x95,
       CHR 0x98, CHR 0xEB, CHR 0xA9, CHR 0xB4] @ '' '' @ [CHR 0xEC, CHR 0xB5, CHR 0x9C,
       CHR 0xEC, CHR 0x8B, CHR 0xA0] @ '' AI(Xception) '' @ [CHR 0xEB, CHR 0xAA, CHR 0xA8,
       CHR 0xEB, CHR 0x8D, CHR 0xB8, CHR 0xEC, CHR 0x9D, CHR 0xB4] @ '' '' @ [CHR 0xEB,
       CHR 0xB6, CHR 0x84, CHR 0xEC, CHR 0x84, CHR 0x9D, CHR 0xED, CHR 0x95, CHR 0x98, CHR 0xEC,
       CHR 0x97, CHR 0xAC] @ '' '' @ [CHR 0xEA, CHR 0xB2, CHR 0xB0, CHR 0xEA, CHR 0xB3,
       CHR 0xBC, CHR 0xEB, CHR 0xA5, CHR 0xBC] @ '' '' @ [CHR 0xEC, CHR 0x95, CHR 0x8C,
       CHR 0xEB, CHR 0xA0, CHR 0xA4, CHR 0xEC, CHR 0xA4, CHR 0x8D, CHR 0xEB, CHR 0x8B, CHR 0x88,
       CHR 0xEB, CHR 0x8B, CHR 0xA4] @ ''!</p>'' @ nl,
     ''        <form id='' @ [CHR 0x22] @ ''upload-form'' @ [CHR 0x22] @ '' enctype='' @
       [CHR 0x22] @ ''multipart/form-data'' @ [CHR 0x22] @ ''>'' @ nl,
     ''            <input type='' @ [CHR 0x22] @ ''file'' @ [CHR 0x22] @ '' id='' @
       [CHR 0x22] @ ''image-input'' @ [CHR 0x22] @ '' name='' @ [CHR 0x22] @ ''file'' @
       [CHR 0x22] @ '' accept='' @ [CHR 0x22] @ ''image/*'' @ [CHR 0x22] @ '' required>'' @ nl,
     ''            <br>'' @ nl,
     ''            <button type='' @ [CHR 0x22] @ ''submit'' @ [CHR 0x22] @ '' class='' @
       [CHR 0x22] @ ''btn'' @ [CHR 0x22] @ ''>'' @ [CHR 0xEB, CHR 0xB6, CHR 0x84, CHR 0xEB,
       CHR 0xA5, CHR 0x98, CHR 0xED, CHR 0x95, CHR 0x98, CHR 0xEA, CHR 0xB8, CHR 0xB0] @
       ''</button>'' @ nl,
     ''        </form>'' @ nl,
     ''        <img id='' @ [CHR 0x22] @ ''preview'' @ [CHR 0x22] @ '' src='' @ [CHR 0x22] @
       ''#'' @ [CHR 0x22] @ '' alt='' @ [CHR 0x22, CHR 0xEB, CHR 0xAF, CHR 0xB8, CHR 0xEB,
       CHR 0xA6, CHR 0xAC, CHR 0xEB, CHR 0xB3, CHR 0xB4, CHR 0xEA, CHR 0xB8, CHR 0xB0] @ '' '' @
       [CHR 0xEC, CHR 0x9D, CHR 0xB4, CHR 0xEB, CHR 0xAF, CHR 0xB8, CHR 0xEC, CHR 0xA7,
       CHR 0x80, CHR 0x22] @ '' />'' @ nl,
     ''        <div id='' @ [CHR 0x22] @ ''result'' @ [CHR 0x22] @ ''></div>'' @ nl,
     ''    </div>'' @ nl,
     nl,
     ''    <script>'' @ nl,
     ''        const imageInput = document.getElementById('' @ [CHR 0x27] @ ''image-input'' @
       [CHR 0x27] @ '');'' @ nl,
     ''        const preview = document.getElementById('' @ [CHR 0x27] @ ''preview'' @
       [CHR 0x27] @ '');'' @ nl,
     ''        const resultDiv = document.getElementById('' @ [CHR 0x27] @ ''result'' @
       [CHR 0x27] @ '');'' @ nl,
     ''        '' @ nl,
     ''        imageInput.addEventListener('' @ [CHR 0x27] @ ''change'' @ [CHR 0x27] @
       '', function() {'' @ nl,
     ''            const file = this.files[0];'' @ nl,
     ''            if (file) {'' @ nl,
     ''                const reader = new FileReader();'' @ nl,
     ''                reader.onload = function(e) {'' @ nl,
     ''                    preview.src = e.target.result;'' @ nl,
     ''                    preview.style.display = '' @ [CHR 0x27] @ ''block'' @ [CHR 0x27] @
       '';'' @ nl,
     ''                    resultDiv.innerHTML = '' @ [CHR 0x27, CHR 0x27] @ '';'' @ nl,
     ''                }'' @ nl,
     ''                reader.readAsDataURL(file);'' @ nl,
     ''            }'' @ nl,
     ''        });'' @ nl,
     nl,
     ''        document.getElementById('' @ [CHR 0x27] @ ''upload-form'' @ [CHR 0x27] @
       '').onsubmit = async (e) => {'' @ nl,
     ''            e.preventDefault();'' @ nl,
     ''            const formData = new FormData(e.target);'' @ nl,
     ''            resultDiv.innerHTML = '' @ [CHR 0x27] @ ''<span class='' @ [CHR 0x22] @
       ''loading'' @ [CHR 0x22] @ ''>'' @ [CHR 0xEB, CHR 0xB6, CHR 0x84, CHR 0xEC, CHR 0x84,
       CHR 0x9D] @ '' '' @ [CHR 0xEC, CHR 0xA4, CHR 0x91] @ ''... '' @ [CHR 0xE2, CHR 0x8F,
       CHR 0xB3] @ ''</span>'' @ [CHR 0x27] @ '';'' @ nl,
     ''            try {'' @ nl,
     ''                const response = await fetch('' @ [CHR 0x27] @ ''/predict'' @
       [CHR 0x27] @ '', {'' @ nl,
     ''                    method: '' @ [CHR 0x27] @ ''POST'' @ [CHR 0x27] @ '','' @ nl,
     ''                    body: formData'' @ nl,
     ''                });'' @ nl,
     ''                const data = await response.json();'' @ nl,
     ''                if (data.error) {'' @ nl,
     ''                    resultDiv.innerHTML = '' @ [CHR 0x27] @ ''<span style='' @
       [CHR 0x22] @ ''color: red;'' @ [CHR 0x22] @ ''>'' @ [CHR 0xEC, CHR 0x97, CHR 0x90,
       CHR 0xEB, CHR 0x9F, CHR 0xAC] @ '': '' @ [CHR 0x27] @ '' + data.error + '' @ [CHR 0x27] @
       ''</span>'' @ [CHR 0x27] @ '';'' @ nl,
     ''                } else {'' @ nl,
     ''                    let predColor = data.prediction.includes('' @ [CHR 0x27, CHR 0xEA,
       CHR 0xB0, CHR 0x95, CHR 0xEC, CHR 0x95, CHR 0x84, CHR 0xEC, CHR 0xA7, CHR 0x80,
       CHR 0x27] @ '') ? '' @ [CHR 0x27] @ ''#2b6cb0'' @ [CHR 0x27] @ '' : '' @ [CHR 0x27] @
       ''#c53030'' @ [CHR 0x27] @ '';'' @ nl,
     ''                    resultDiv.innerHTML = '' @ [CHR 0x60, CHR 0xEA, CHR 0xB2, CHR 0xB0,
       CHR 0xEA, CHR 0xB3, CHR 0xBC] @ '': <span style='' @ [CHR 0x22] @
       ''color: ${predColor};'' @ [CHR 0x22] @ ''>${data.prediction}</span><br><span style='' @
       [CHR 0x22] @ ''font-size: 16px; font-weight: normal; color: #718096;'' @ [CHR 0x22] @
       ''>AI '' @ [CHR 0xED, CHR 0x99, CHR 0x95, CHR 0xEC, CHR 0x8B, CHR 0xA0, CHR 0xEB,
       CHR 0x8F, CHR 0x84] @ '': ${(data.confidence * 100).toFixed(2)}%</span>'' @ [CHR 0x60] @
       '';'' @ nl,
     ''                }'' @ nl,
     ''            } catch (err) {'' @ nl,
     ''                resultDiv.innerHTML = '' @ [CHR 0x27] @ ''<span style='' @ [CHR 0x22] @
       ''color: red;'' @ [CHR 0x22] @ ''>'' @ [CHR 0xEC, CHR 0x84, CHR 0x9C, CHR 0xEB, CHR 0xB2,
       CHR 0x84] @ '' '' @ [CHR 0xEC, CHR 0x98, CHR 0xA4, CHR 0xEB, CHR 0xA5, CHR 0x98,
       CHR 0xEA, CHR 0xB0, CHR 0x80] @ '' '' @ [CHR 0xEB, CHR 0xB0, CHR 0x9C, CHR 0xEC,
       CHR 0x83, CHR 0x9D, CHR 0xED, CHR 0x96, CHR 0x88, CHR 0xEC, CHR 0x8A, CHR 0xB5, CHR 0xEB,
       CHR 0x8B, CHR 0x88, CHR 0xEB, CHR 0x8B, CHR 0xA4] @ ''.</span>'' @ [CHR 0x27] @ '';'' @ nl,
     ''            }'' @ nl,
     ''        };'' @ nl,
     ''    </script>'' @ nl,
     ''</body>'' @ nl,
     ''</html>'' @ nl]"

subsection \<open>Start-up (lines 12 to 22)\<close>

definition model_path :: string where
  "model_path = ''best_model_xception.keras''"

text \<open>\<open>t[i]\<close> on a tuple, for \<open>i \<ge> 0\<close>: an \<open>IndexError\<close> out of range.\<close>

definition tuple_item :: "'x list \<Rightarrow> nat \<Rightarrow> pyexn + 'x" where
  "tuple_item t i =
     (if i < length t then Inr (t ! i) else Inl (Raised True ''tuple index out of range''))"

text \<open>\<open>t[i:j]\<close> for \<open>0 \<le> i \<le> j\<close>: never raises.\<close>

definition tuple_slice :: "'x list \<Rightarrow> nat \<Rightarrow> nat \<Rightarrow> 'x list" where
  "tuple_slice t i j = take (j - i) (drop i t)"

text \<open>
  The module body. \<open>exists\<close> is \<open>os.path.exists\<close> and \<open>load_model\<close> is
  \<open>tf.keras.models.load_model\<close>, on the file system the process starts in. The
  condition \<open>model.input_shape[1] is not None\<close> is evaluated before the slice. The
  console output is not modelled.
\<close>

definition startup ::
  "(string \<Rightarrow> bool) \<Rightarrow> (string \<Rightarrow> pyexn + 'a keras_model) \<Rightarrow> 'a globals io" where
  "startup exists load_model =
     bind_io (call (PathExists model_path) (Inr (exists model_path))) (\<lambda>found.
       if found then
         bind_io (call (LoadModel model_path) (load_model model_path)) (\<lambda>m.
         bind_io ([], tuple_item (model_input_shape m) 1) (\<lambda>d.
           ret \<lparr>model = Some m,
                input_shape =
                  (if d \<noteq> None then tuple_slice (model_input_shape m) 1 3
                   else [Some 299, Some 299])\<rparr>))
       else ret \<lparr>model = None, input_shape = [Some 299, Some 299]\<rparr>)"

subsection \<open>The page (lines 98 to 100)\<close>

text \<open>
  \<open>render_template_string\<close> is Flask's, not this repository's. Jinja treats a template as
  markup only where one of its delimiters \<open>{{\<close>, \<open>{%\<close> or \<open>{#\<close> starts; a source without them
  is a single piece of data, emitted as it stands but for one final line break, which
  Jinja drops (\<open>keep_trailing_newline\<close> is off by default). The rendering of a source with
  delimiters is the parameter \<open>jinja\<close>, which sees the globals and the request.
\<close>

fun has_delimiter :: "string \<Rightarrow> bool" where
  "has_delimiter (c # d # cs) =
     ((c = CHR ''{'' \<and> (d = CHR ''{'' \<or> d = CHR ''%'' \<or> d = CHR ''#'')) \<or> has_delimiter (d # cs))"
| "has_delimiter _ = False"

definition drop_final_newline :: "string \<Rightarrow> string" where
  "drop_final_newline s = (if s \<noteq> [] \<and> last s = CHR 0x0A then butlast s else s)"

definition render_template_string ::
  "(string \<Rightarrow> 'g \<Rightarrow> 'r \<Rightarrow> pyexn + string) \<Rightarrow> string \<Rightarrow> 'g \<Rightarrow> 'r \<Rightarrow> pyexn + string" where
  "render_template_string jinja source g rq =
     (if has_delimiter source then jinja source g rq else Inr (drop_final_newline source))"

definition index ::
  "(string \<Rightarrow> 'g \<Rightarrow> 'r \<Rightarrow> pyexn + string) \<Rightarrow> 'g \<Rightarrow> 'r \<Rightarrow> response io" where
  "index jinja g rq =
     bind_io ([], render_template_string jinja HTML_TEMPLATE g rq) (\<lambda>html.
       ret \<lparr>payload = Html html, status = 200\<rparr>)"

subsection \<open>The prediction (lines 102 to 142)\<close>

text \<open>\<open>preds[0][0]\<close>: an \<open>IndexError\<close> when the array has no such entry.\<close>

definition item00 :: "pyfloat list list \<Rightarrow> pyexn + pyfloat" where
  "item00 preds =
     (case preds of
        [] \<Rightarrow> Inl (Raised True ''index 0 is out of bounds for axis 0 with size 0'')
      | row # _ \<Rightarrow>
          (case row of
             [] \<Rightarrow> Inl (Raised True ''index 0 is out of bounds for axis 0 with size 0'')
           | x # _ \<Rightarrow> Inr x))"

text \<open>Lines 115 to 127: from the uploaded file to the score.\<close>

definition infer ::
  "('b, 'i, 'a) libs \<Rightarrow> 'a keras_model \<Rightarrow> int option list \<Rightarrow> 'b file_storage \<Rightarrow> pyfloat io" where
  "infer L m shape file =
     bind_io (call FileRead (read file)) (\<lambda>img_bytes.
     bind_io (call ImageOpen (Image_open L img_bytes)) (\<lambda>opened.
     bind_io (call ConvertRGB (convert_RGB L opened)) (\<lambda>img.
     bind_io (call (Resize shape) (resize L img shape)) (\<lambda>img.
     bind_io (call ImgToArray (img_to_array L img)) (\<lambda>img_array.
     bind_io (call ExpandDims (expand_dims L img_array)) (\<lambda>img_array.
     bind_io (call PreprocessInput (preprocess_input L img_array)) (\<lambda>img_array.
     bind_io (call ModelPredict (model_predict m img_array)) (\<lambda>preds.
     ([], item00 preds)))))))))"

text \<open>Lines 130 to 135: the label and the confidence of a score.\<close>

definition label_and_confidence :: "pyfloat \<Rightarrow> string \<times> pyfloat" where
  "label_and_confidence score =
     (if fgt score (Finite (1 / 2)) then (label_dog, score)
      else (label_cat, fsub (Finite 1) score))"

definition predict ::
  "('b, 'i, 'a) libs \<Rightarrow> 'a globals \<Rightarrow> 'b request \<Rightarrow> response io" where
  "predict L g rq =
     (case model g of
        None \<Rightarrow> ret (with_status (jsonify [(''error'', JStr msg_model_not_loaded)]) 500)
      | Some m \<Rightarrow>
          (case map_of (files rq) ''file'' of
             None \<Rightarrow> ret (with_status (jsonify [(''error'', JStr msg_no_file_part)]) 400)
           | Some file \<Rightarrow>
               if filename file = [] then
                 ret (with_status (jsonify [(''error'', JStr msg_no_filename)]) 400)
               else
                 try_except
                   (bind_io (infer L m (input_shape g) file) (\<lambda>score.
                      case label_and_confidence score of
                        (prediction, confidence) \<Rightarrow>
                          ret (jsonify [(''prediction'', JStr prediction),
                                        (''confidence'', JNum confidence)])))
                   (\<lambda>e. ret (with_status (jsonify [(''error'', JStr (exn_str e))]) 500))))"

subsection \<open>Routes (lines 10, 98 and 102)\<close>

text \<open>
  A URL rule: the path, the methods and the view function it is bound to. \<open>Flask(__name__)\<close>
  creates the application with the rules the framework installs by itself; they are the
  parameter \<open>framework_rules\<close>. \<open>@app.route(path, methods=ms)\<close> appends one rule, with
  \<open>['GET']\<close> when no methods are given.
\<close>

datatype view = view_index | view_predict | view_framework string




subsection \<open>Serving requests\<close>




subsection \<open>Derived notions\<close>

text \<open>The library calls of lines 115 to 126, in the order of the source.\<close>

definition inference_steps :: "int option list \<Rightarrow> step list" where
  "inference_steps shape =
     [FileRead, ImageOpen, ConvertRGB, Resize shape, ImgToArray, ExpandDims,
      PreprocessInput, ModelPredict]"

text \<open>The response of \<open>return jsonify({'error': msg}), s\<close>.\<close>

definition error_response :: "string \<Rightarrow> nat \<Rightarrow> response" where
  "error_response msg s = \<lparr>payload = Json [(''error'', JStr msg)], status = s\<rparr>"

text \<open>
  Lines 141 and 142: what \<open>predict\<close> yields once a call of the \<open>try\<close> block has raised \<open>e\<close>.
\<close>

definition after_raise :: "pyexn \<Rightarrow> pyexn + response" where
  "after_raise e = (if is_Exception e then Inr (error_response (exn_str e) 500) else Inl e)"

section \<open>Sample inputs\<close>

text \<open>
  Concrete libraries, models, globals and requests, on which the theorems below are
  instantiated. Bytes, images and arrays are numbers here. \<open>sample_model\<close> scores every
  input exactly 0.5; \<open>undecodable_libs\<close> cannot decode the upload (Pillow's
  \<open>UnidentifiedImageError\<close>); \<open>exiting_model\<close> raises \<open>SystemExit(1)\<close> inside
  \<open>model.predict\<close>, as a worker told to exit during a long forward pass does.
\<close>

definition sample_libs :: "(nat, nat, nat) libs" where
  "sample_libs =
     \<lparr>Image_open = (\<lambda>b. Inr b), convert_RGB = (\<lambda>i. Inr i), resize = (\<lambda>i shape. Inr i),
      img_to_array = (\<lambda>i. Inr i), expand_dims = (\<lambda>a. Inr a), preprocess_input = (\<lambda>a. Inr a)\<rparr>"

definition undecodable_libs :: "(nat, nat, nat) libs" where
  "undecodable_libs =
     sample_libs\<lparr>Image_open := (\<lambda>b. Inl (Raised True ''cannot identify image file''))\<rparr>"

definition sample_model :: "nat keras_model" where
  "sample_model =
     \<lparr>model_input_shape = [None, Some 299, Some 299, Some 3],
      model_predict = (\<lambda>a. Inr [[Finite (1 / 2)]])\<rparr>"

definition exiting_model :: "nat keras_model" where
  "exiting_model =
     \<lparr>model_input_shape = [None, Some 299, Some 299, Some 3],
      model_predict = (\<lambda>a. Inl (Raised False ''1''))\<rparr>"

definition sample_globals :: "nat globals" where
  "sample_globals = \<lparr>model = Some sample_model, input_shape = [Some 299, Some 299]\<rparr>"

definition exiting_globals :: "nat globals" where
  "exiting_globals = \<lparr>model = Some exiting_model, input_shape = [Some 299, Some 299]\<rparr>"

definition sample_file :: "nat file_storage" where
  "sample_file = \<lparr>filename = ''pet.jpg'', read = Inr 0\<rparr>"

definition sample_request :: "nat request" where
  "sample_request = \<lparr>files = [(''file'', sample_file)]\<rparr>"

definition unloaded_globals :: "nat globals" where
  "unloaded_globals = \<lparr>model = None, input_shape = [Some 299, Some 299]\<rparr>"

definition empty_request :: "nat request" where
  "empty_request = \<lparr>files = []\<rparr>"

definition unnamed_file :: "nat file_storage" where
  "unnamed_file = \<lparr>filename = [], read = Inr 0\<rparr>"

definition unnamed_request :: "nat request" where
  "unnamed_request = \<lparr>files = [(''file'', unnamed_file)]\<rparr>"

section \<open>Properties\<close>

subsection \<open>Rounding to binary64\<close>

lemma bit_length_nonneg: "0 \<le> bit_length n"
  by (induction n rule: bit_length.induct) (subst bit_length.simps, simp)

lemma bit_length_pos: "0 < n \<Longrightarrow> 1 \<le> bit_length n"
  using bit_length_nonneg [of "n div 2"] by (subst bit_length.simps) simp

lemma bit_length_rec: "0 < n \<Longrightarrow> bit_length n = 1 + bit_length (n div 2)"
  by (subst bit_length.simps) simp

lemma bit_length_bounds:
  "0 < n \<Longrightarrow> 2 ^ nat (bit_length n - 1) \<le> n \<and> n < 2 ^ nat (bit_length n)"
proof (induction n rule: bit_length.induct)
  case (1 n)
  show ?case
  proof (cases "n = 1")
    case True
    have "bit_length 1 = 1 + bit_length 0" by (subst bit_length.simps) simp
    also have "bit_length 0 = 0" by (subst bit_length.simps) simp
    finally show ?thesis using True by simp
  next
    case False
    with "1.prems" have h: "0 < n div 2" by simp
    have ih: "2 ^ nat (bit_length (n div 2) - 1) \<le> n div 2 \<and> n div 2 < 2 ^ nat (bit_length (n div 2))"
      using "1.IH" "1.prems" h by simp
    have bl: "bit_length n = 1 + bit_length (n div 2)"
      using "1.prems" by (rule bit_length_rec)
    have p: "1 \<le> bit_length (n div 2)" using h by (rule bit_length_pos)
    have e1: "nat (bit_length n - 1) = Suc (nat (bit_length (n div 2) - 1))"
      using p bl by simp
    have e2: "nat (bit_length n) = Suc (nat (bit_length (n div 2)))"
      using p bl by simp
    show ?thesis using ih unfolding e1 e2 by simp linarith
  qed
qed


lemma powi_nat: "0 \<le> k \<Longrightarrow> (2::rat) powi k = 2 ^ nat k"
  by (simp add: power_int_def)

lemma bit_length_rat_bounds:
  assumes "0 < n"
  shows "(2::rat) powi (bit_length n - 1) \<le> of_int n" and "(of_int n :: rat) < 2 powi bit_length n"
proof -
  have p: "1 \<le> bit_length n" using assms by (rule bit_length_pos)
  have b: "2 ^ nat (bit_length n - 1) \<le> n" "n < 2 ^ nat (bit_length n)"
    using bit_length_bounds [OF assms] by simp_all
  have "(of_int (2 ^ nat (bit_length n - 1)) :: rat) \<le> of_int n"
    using b(1) by (simp only: of_int_le_iff)
  then show "(2::rat) powi (bit_length n - 1) \<le> of_int n"
    using p by (simp add: powi_nat)
  have "(of_int n :: rat) < of_int (2 ^ nat (bit_length n))"
    using b(2) by (simp only: of_int_less_iff)
  then show "(of_int n :: rat) < 2 powi bit_length n"
    using p by (simp add: powi_nat)
qed

lemma binade_le:
  assumes "0 < x"
  shows "2 powi binade x \<le> x"
proof -
  obtain a b where q: "quotient_of x = (a, b)" by (cases "quotient_of x")
  have bpos: "0 < b" using q by (rule quotient_of_denom_pos)
  have x: "x = of_int a / of_int b" using q by (rule quotient_of_div)
  have apos: "0 < a"
    using assms bpos unfolding x by (simp add: zero_less_divide_iff)
  define d where "d = bit_length a - bit_length b"
  have bin: "binade x = (if 2 powi d \<le> x then d else d - 1)"
    by (simp add: binade_def q d_def)
  show ?thesis
  proof (cases "2 powi d \<le> x")
    case True
    then show ?thesis by (simp add: bin)
  next
    case False
    have lo: "(2::rat) powi (bit_length a - 1) \<le> of_int a"
      using apos by (rule bit_length_rat_bounds)
    have hi: "(of_int b :: rat) < 2 powi bit_length b"
      using bpos by (rule bit_length_rat_bounds)
    have e: "(2::rat) powi (d - 1) = 2 powi (bit_length a - 1) / 2 powi bit_length b"
      unfolding d_def by (simp add: power_int_diff power_int_add algebra_simps)
    have "(2::rat) powi (bit_length a - 1) / 2 powi bit_length b \<le> of_int a / 2 powi bit_length b"
      using lo by (simp add: divide_right_mono)
    also have "\<dots> \<le> of_int a / of_int b"
      using hi apos bpos by (simp add: frac_le)
    finally have "(2::rat) powi (d - 1) \<le> x" unfolding e x .
    with False show ?thesis by (simp add: bin)
  qed
qed

lemma binade_gt:
  assumes "0 < x"
  shows "x < 2 powi (binade x + 1)"
proof -
  obtain a b where q: "quotient_of x = (a, b)" by (cases "quotient_of x")
  have bpos: "0 < b" using q by (rule quotient_of_denom_pos)
  have x: "x = of_int a / of_int b" using q by (rule quotient_of_div)
  have apos: "0 < a"
    using assms bpos unfolding x by (simp add: zero_less_divide_iff)
  define d where "d = bit_length a - bit_length b"
  have bin: "binade x = (if 2 powi d \<le> x then d else d - 1)"
    by (simp add: binade_def q d_def)
  show ?thesis
  proof (cases "2 powi d \<le> x")
    case False
    then show ?thesis by (simp add: bin)
  next
    case True
    have lo: "(2::rat) powi (bit_length b - 1) \<le> of_int b"
      using bpos by (rule bit_length_rat_bounds)
    have hi: "(of_int a :: rat) < 2 powi bit_length a"
      using apos by (rule bit_length_rat_bounds)
    have e: "(2::rat) powi (d + 1) = 2 powi bit_length a / 2 powi (bit_length b - 1)"
      unfolding d_def by (simp add: power_int_diff power_int_add algebra_simps)
    have "of_int a / of_int b < 2 powi bit_length a / (of_int b :: rat)"
      using hi bpos by (simp add: divide_strict_right_mono)
    also have "\<dots> \<le> 2 powi bit_length a / 2 powi (bit_length b - 1)"
      using lo by (simp add: frac_le)
    finally have "x < (2::rat) powi (d + 1)" unfolding e x .
    with True show ?thesis by (simp add: bin)
  qed
qed

lemma round_half_even_ge: "of_int m \<le> q \<Longrightarrow> m \<le> round_half_even q"
  unfolding round_half_even_def Let_def by (auto simp: le_floor_iff) linarith+

lemma round_half_even_le:
  assumes "q \<le> of_int m"
  shows "round_half_even q \<le> m"
proof -
  have f: "\<lfloor>q\<rfloor> \<le> m" using assms by (simp add: floor_le_iff)
  have g: "\<lfloor>q\<rfloor> + 1 \<le> m" if "0 < q - of_int \<lfloor>q\<rfloor>"
  proof -
    have "of_int \<lfloor>q\<rfloor> < (of_int m :: rat)" using that assms by linarith
    then have "\<lfloor>q\<rfloor> < m" by (simp only: of_int_less_iff)
    then show ?thesis by simp
  qed
  show ?thesis
    unfolding round_half_even_def Let_def using f g by auto
qed


text \<open>A power of two at or above the spacing bounds the rounded value as it bounds x.\<close>

lemma round_grid_le:
  assumes "x \<le> 2 powi j" and "e \<le> j"
  shows "of_int (round_half_even (x / 2 powi e)) * 2 powi e \<le> (2::rat) powi j"
proof -
  have pos: "(0::rat) < 2 powi e" by simp
  have g: "(2::rat) powi j / 2 powi e = of_int (2 ^ nat (j - e))"
    using assms(2) by (simp add: power_int_diff [symmetric] powi_nat)
  have "x / 2 powi e \<le> 2 powi j / 2 powi e"
    using assms(1) pos by (simp add: divide_right_mono)
  then have "round_half_even (x / 2 powi e) \<le> 2 ^ nat (j - e)"
    unfolding g by (rule round_half_even_le)
  then have "(of_int (round_half_even (x / 2 powi e)) :: rat) \<le> of_int (2 ^ nat (j - e))"
    by (simp only: of_int_le_iff)
  then have "of_int (round_half_even (x / 2 powi e)) * 2 powi e \<le> (2::rat) powi j / 2 powi e * 2 powi e"
    unfolding g using pos by (simp add: mult_right_mono)
  then show ?thesis by simp
qed

lemma round_grid_ge:
  assumes "2 powi j \<le> x" and "e \<le> j"
  shows "(2::rat) powi j \<le> of_int (round_half_even (x / 2 powi e)) * 2 powi e"
proof -
  have pos: "(0::rat) < 2 powi e" by simp
  have g: "(2::rat) powi j / 2 powi e = of_int (2 ^ nat (j - e))"
    using assms(2) by (simp add: power_int_diff [symmetric] powi_nat)
  have "2 powi j / 2 powi e \<le> x / 2 powi e"
    using assms(1) pos by (simp add: divide_right_mono)
  then have "2 ^ nat (j - e) \<le> round_half_even (x / 2 powi e)"
    unfolding g by (rule round_half_even_ge)
  then have "(of_int (2 ^ nat (j - e)) :: rat) \<le> of_int (round_half_even (x / 2 powi e))"
    by (simp only: of_int_le_iff)
  then have "(2::rat) powi j / 2 powi e * 2 powi e \<le> of_int (round_half_even (x / 2 powi e)) * 2 powi e"
    unfolding g using pos by (simp add: mult_right_mono)
  then show ?thesis by simp
qed

lemma binade_le_0:
  assumes "0 < x" and "x \<le> 1"
  shows "binade x \<le> 0"
proof (rule ccontr)
  assume "\<not> binade x \<le> 0"
  then have "1 \<le> binade x" by simp
  then have "(2::rat) powi 1 \<le> 2 powi binade x"
    by (intro power_int_increasing) simp_all
  with binade_le [OF assms(1)] assms(2) show False by simp
qed

text \<open>Rounding keeps a value of the unit interval between the powers of two around it.\<close>

lemma round_double_unit:
  assumes "0 < x" and "x \<le> 1"
  shows "\<exists>y. round_double x = Finite y \<and> 0 \<le> y \<and> y \<le> 1 \<and>
             (x \<le> 1 / 2 \<longrightarrow> y \<le> 1 / 2) \<and> (1 / 2 \<le> x \<longrightarrow> 1 / 2 \<le> y)"
proof -
  define e where "e = max (binade \<bar>x\<bar> - 52) (- 1074)"
  define y where "y = of_int (round_half_even (\<bar>x\<bar> / 2 powi e)) * (2::rat) powi e"
  have ax: "\<bar>x\<bar> = x" using assms(1) by simp
  have e: "e \<le> - 1" using binade_le_0 [OF assms] by (simp add: e_def ax)
  have y1: "y \<le> 2 powi 0"
    unfolding y_def ax using assms(2) e by (intro round_grid_le) simp_all
  have y0: "0 \<le> y"
  proof -
    have "0 \<le> round_half_even (x / 2 powi e)"
      using assms(1) by (intro round_half_even_ge) simp
    then show ?thesis unfolding y_def ax by simp
  qed
  have yh: "y \<le> 1 / 2" if "x \<le> 1 / 2"
  proof -
    have "y \<le> 2 powi (- 1)"
      unfolding y_def ax using that e by (intro round_grid_le) (simp_all add: power_int_minus)
    then show ?thesis by (simp add: power_int_minus)
  qed
  have yl: "1 / 2 \<le> y" if "1 / 2 \<le> x"
  proof -
    have "2 powi (- 1) \<le> y"
      unfolding y_def ax using that e by (intro round_grid_ge) (simp_all add: power_int_minus)
    then show ?thesis by (simp add: power_int_minus)
  qed
  have big: "\<not> (2::rat) powi 1024 \<le> y"
  proof -
    have "(2::rat) powi 0 < 2 powi 1024" by (intro power_int_strict_increasing) simp_all
    with y1 show ?thesis by simp
  qed
  have nz: "x \<noteq> 0" using assms(1) by simp
  have "round_double x =
      (if (2::rat) powi 1024 \<le> y then (if 0 < x then PosInf else NegInf)
       else Finite (sgn x * y))"
    unfolding round_double_def Let_def y_def e_def by (simp only: nz if_False)
  also have "\<dots> = Finite (sgn x * y)" by (simp only: big if_False)
  also have "sgn x * y = y" using assms(1) by simp
  finally have "round_double x = Finite y" .
  with y0 y1 yh yl show ?thesis by simp
qed

lemma round_double_half: "round_double (1 / 2) = Finite (1 / 2)"
  using round_double_unit [of "1 / 2"] by auto

subsection \<open>The effect combinators and the inference path\<close>

lemma bind_io_Inl: "bind_io (t, Inl e) f = (t, Inl e)"
  by (simp add: bind_io_def)

lemma bind_io_Inr: "bind_io (t, Inr x) f = (t @ fst (f x), snd (f x))"
  by (simp add: bind_io_def split: prod.splits)

lemma infer_raised:
  "infer L m shape file = (t, Inl e) \<Longrightarrow>
   t \<noteq> [] \<and> hd t = FileRead \<and> prefix t (inference_steps shape)"
  unfolding infer_def inference_steps_def call_def bind_io_def
  by (auto split: sum.splits prod.splits)

lemma infer_returned:
  "infer L m shape file = (t, Inr score) \<Longrightarrow> t = inference_steps shape"
  unfolding infer_def inference_steps_def call_def bind_io_def
  by (auto split: sum.splits prod.splits)

lemma infer_chain:
  "(infer L m shape file = (inference_steps shape, Inr score)) =
   (\<exists>b i1 i2 i3 a1 a2 a3 preds.
      read file = Inr b \<and> Image_open L b = Inr i1 \<and> convert_RGB L i1 = Inr i2 \<and>
      resize L i2 shape = Inr i3 \<and> img_to_array L i3 = Inr a1 \<and>
      expand_dims L a1 = Inr a2 \<and> preprocess_input L a2 = Inr a3 \<and>
      model_predict m a3 = Inr preds \<and> item00 preds = Inr score)"
  unfolding infer_def inference_steps_def call_def bind_io_def
  by (auto split: sum.splits prod.splits)

lemma sample_infer:
  "infer sample_libs sample_model [Some 299, Some 299] sample_file =
     (inference_steps [Some 299, Some 299], Inr (Finite (1 / 2)))"
  by (simp add: infer_def bind_io_def call_def sample_libs_def sample_model_def sample_file_def
      item00_def inference_steps_def)

subsection \<open>The cases of \<open>predict\<close>\<close>

lemma predict_unloaded:
  "model g = None \<Longrightarrow> predict L g rq = ([], Inr (error_response msg_model_not_loaded 500))"
  by (simp add: predict_def ret_def with_status_def jsonify_def error_response_def)

lemma predict_no_file_part:
  "model g = Some m \<Longrightarrow> map_of (files rq) ''file'' = None \<Longrightarrow>
   predict L g rq = ([], Inr (error_response msg_no_file_part 400))"
  by (simp add: predict_def ret_def with_status_def jsonify_def error_response_def)

lemma predict_no_filename:
  "model g = Some m \<Longrightarrow> map_of (files rq) ''file'' = Some file \<Longrightarrow> filename file = [] \<Longrightarrow>
   predict L g rq = ([], Inr (error_response msg_no_filename 400))"
  by (simp add: predict_def ret_def with_status_def jsonify_def error_response_def)

lemma predict_accepted_ok:
  assumes "model g = Some m" "map_of (files rq) ''file'' = Some file" "filename file \<noteq> []"
    and "infer L m (input_shape g) file = (t, Inr score)"
  shows "predict L g rq =
      (t, Inr \<lparr>payload = Json [(''prediction'', JStr (fst (label_and_confidence score))),
                                 (''confidence'', JNum (snd (label_and_confidence score)))],
               status = 200\<rparr>)"
  using assms
  by (simp add: predict_def try_except_def bind_io_def ret_def jsonify_def split: prod.splits)

lemma predict_accepted_caught:
  assumes "model g = Some m" "map_of (files rq) ''file'' = Some file" "filename file \<noteq> []"
    and "infer L m (input_shape g) file = (t, Inl e)" "is_Exception e"
  shows "predict L g rq = (t, Inr (error_response (exn_str e) 500))"
  using assms
  by (simp add: predict_def try_except_def bind_io_def ret_def jsonify_def with_status_def
      error_response_def)

lemma predict_accepted_propagated:
  assumes "model g = Some m" "map_of (files rq) ''file'' = Some file" "filename file \<noteq> []"
    and "infer L m (input_shape g) file = (t, Inl e)" "\<not> is_Exception e"
  shows "predict L g rq = (t, Inl e)"
  using assms
  by (simp add: predict_def try_except_def bind_io_def)

lemma predict_result_cases:
  obtains
    (unloaded) "model g = None"
      "predict L g rq = ([], Inr (error_response msg_model_not_loaded 500))"
  | (no_part) m where "model g = Some m" "map_of (files rq) ''file'' = None"
      "predict L g rq = ([], Inr (error_response msg_no_file_part 400))"
  | (no_name) m up where "model g = Some m" "map_of (files rq) ''file'' = Some up"
      "filename up = []"
      "predict L g rq = ([], Inr (error_response msg_no_filename 400))"
  | (returned) m up t score where "model g = Some m"
      "map_of (files rq) ''file'' = Some up" "filename up \<noteq> []"
      "infer L m (input_shape g) up = (t, Inr score)"
      "predict L g rq =
         (t, Inr \<lparr>payload = Json [(''prediction'', JStr (fst (label_and_confidence score))),
                                    (''confidence'', JNum (snd (label_and_confidence score)))],
                  status = 200\<rparr>)"
  | (caught) m up t e where "model g = Some m"
      "map_of (files rq) ''file'' = Some up" "filename up \<noteq> []"
      "infer L m (input_shape g) up = (t, Inl e)" "is_Exception e"
      "predict L g rq = (t, Inr (error_response (exn_str e) 500))"
  | (propagated) m up t e where "model g = Some m"
      "map_of (files rq) ''file'' = Some up" "filename up \<noteq> []"
      "infer L m (input_shape g) up = (t, Inl e)" "\<not> is_Exception e"
      "predict L g rq = (t, Inl e)"
proof (cases "model g")
  case None
  then show ?thesis using unloaded predict_unloaded by blast
next
  case (Some m)
  note m = this
  show ?thesis
  proof (cases "map_of (files rq) ''file''")
    case None
    then show ?thesis using no_part predict_no_file_part m by blast
  next
    case (Some up)
    note f = this
    show ?thesis
    proof (cases "filename up = []")
      case True
      then show ?thesis using no_name predict_no_filename m f by blast
    next
      case False
      note n = this
      obtain t res where i: "infer L m (input_shape g) up = (t, res)"
        by (cases "infer L m (input_shape g) up")
      show ?thesis
      proof (cases res)
        case (Inr score)
        then show ?thesis using returned [OF m f n] predict_accepted_ok [OF m f n] i by blast
      next
        case (Inl e)
        show ?thesis
        proof (cases "is_Exception e")
          case True
          then show ?thesis
            using caught [OF m f n] predict_accepted_caught [OF m f n] i Inl by blast
        next
          case False
          then show ?thesis
            using propagated [OF m f n] predict_accepted_propagated [OF m f n] i Inl by blast
        qed
      qed
    qed
  qed
qed


lemma json_get_error_response [simp]:
  "json_get (error_response msg s) k = (if k = ''error'' then Some (JStr msg) else None)"
  by (simp add: json_get_def error_response_def)

lemma status_error_response [simp]: "status (error_response msg s) = s"
  by (simp add: error_response_def)

lemma prefix_count_list_le: "prefix xs ys \<Longrightarrow> count_list xs a \<le> count_list ys a"
  by (auto simp: prefix_def)

lemma infer_starts_with_read: "\<exists>t. fst (infer L m shape up) = FileRead # t"
  unfolding infer_def call_def bind_io_def
  by (auto split: sum.splits prod.splits)

lemma infer_trace_prefix: "prefix (fst (infer L m shape up)) (inference_steps shape)"
proof (cases "infer L m shape up")
  case (Pair t res)
  then show ?thesis
    using infer_raised [of L m shape up t] infer_returned [of L m shape up t]
    by (cases res) auto
qed

lemma predict_trace_accepted:
  assumes "model g = Some m" and "map_of (files rq) ''file'' = Some up" and "filename up \<noteq> []"
  shows "fst (predict L g rq) = fst (infer L m (input_shape g) up)"
proof (cases L g rq rule: predict_result_cases)
  case (returned m' up' t score)
  with assms show ?thesis by simp
next
  case (caught m' up' t e)
  with assms show ?thesis by simp
next
  case (propagated m' up' t e)
  with assms show ?thesis by simp
qed (use assms in auto)

lemma undecodable_predict:
  "predict undecodable_libs sample_globals sample_request =
     ([FileRead, ImageOpen], Inr (error_response ''cannot identify image file'' 500))"
proof -
  have i: "infer undecodable_libs sample_model (input_shape sample_globals) sample_file =
      ([FileRead, ImageOpen], Inl (Raised True ''cannot identify image file''))"
    by (simp add: infer_def bind_io_def call_def undecodable_libs_def sample_libs_def
        sample_file_def)
  show ?thesis
    using predict_accepted_caught [of sample_globals sample_model sample_request sample_file
        undecodable_libs "[FileRead, ImageOpen]" "Raised True ''cannot identify image file''"] i
    by (simp add: sample_globals_def sample_request_def sample_file_def)
qed

lemma exiting_predict:
  "predict sample_libs exiting_globals sample_request =
     (inference_steps [Some 299, Some 299], Inl (Raised False ''1''))"
proof -
  have i: "infer sample_libs exiting_model (input_shape exiting_globals) sample_file =
      (inference_steps [Some 299, Some 299], Inl (Raised False ''1''))"
    by (simp add: infer_def bind_io_def call_def sample_libs_def exiting_model_def
        exiting_globals_def sample_file_def inference_steps_def)
  show ?thesis
    using predict_accepted_propagated [of exiting_globals exiting_model sample_request
        sample_file sample_libs "inference_steps [Some 299, Some 299]" "Raised False ''1''"] i
    by (simp add: exiting_globals_def sample_request_def sample_file_def)
qed

lemma predict_accepted_raised:
  assumes "model g = Some m" and "map_of (files rq) ''file'' = Some up" and "filename up \<noteq> []"
    and "infer L m (input_shape g) up = (t, Inl e)"
  shows "predict L g rq = (t, after_raise e)"
  using predict_accepted_caught [OF assms] predict_accepted_propagated [OF assms]
  by (simp add: after_raise_def)

lemma infer_cut_read:
  "read up = Inl e \<Longrightarrow> infer L m shape up = ([FileRead], Inl e)"
  by (simp add: infer_def bind_io_def call_def)

lemma infer_cut_open:
  "read up = Inr b \<Longrightarrow> Image_open L b = Inl e \<Longrightarrow>
   infer L m shape up = ([FileRead, ImageOpen], Inl e)"
  by (simp add: infer_def bind_io_def call_def)

lemma infer_cut_convert:
  "read up = Inr b \<Longrightarrow> Image_open L b = Inr i1 \<Longrightarrow> convert_RGB L i1 = Inl e \<Longrightarrow>
   infer L m shape up = ([FileRead, ImageOpen, ConvertRGB], Inl e)"
  by (simp add: infer_def bind_io_def call_def)

lemma infer_cut_resize:
  "read up = Inr b \<Longrightarrow> Image_open L b = Inr i1 \<Longrightarrow> convert_RGB L i1 = Inr i2 \<Longrightarrow>
   resize L i2 shape = Inl e \<Longrightarrow>
   infer L m shape up = ([FileRead, ImageOpen, ConvertRGB, Resize shape], Inl e)"
  by (simp add: infer_def bind_io_def call_def)

lemma infer_cut_to_array:
  "read up = Inr b \<Longrightarrow> Image_open L b = Inr i1 \<Longrightarrow> convert_RGB L i1 = Inr i2 \<Longrightarrow>
   resize L i2 shape = Inr i3 \<Longrightarrow> img_to_array L i3 = Inl e \<Longrightarrow>
   infer L m shape up = ([FileRead, ImageOpen, ConvertRGB, Resize shape, ImgToArray], Inl e)"
  by (simp add: infer_def bind_io_def call_def)

lemma infer_cut_expand:
  "read up = Inr b \<Longrightarrow> Image_open L b = Inr i1 \<Longrightarrow> convert_RGB L i1 = Inr i2 \<Longrightarrow>
   resize L i2 shape = Inr i3 \<Longrightarrow> img_to_array L i3 = Inr a1 \<Longrightarrow>
   expand_dims L a1 = Inl e \<Longrightarrow>
   infer L m shape up =
     ([FileRead, ImageOpen, ConvertRGB, Resize shape, ImgToArray, ExpandDims], Inl e)"
  by (simp add: infer_def bind_io_def call_def)

lemma infer_cut_preprocess:
  "read up = Inr b \<Longrightarrow> Image_open L b = Inr i1 \<Longrightarrow> convert_RGB L i1 = Inr i2 \<Longrightarrow>
   resize L i2 shape = Inr i3 \<Longrightarrow> img_to_array L i3 = Inr a1 \<Longrightarrow>
   expand_dims L a1 = Inr a2 \<Longrightarrow> preprocess_input L a2 = Inl e \<Longrightarrow>
   infer L m shape up =
     ([FileRead, ImageOpen, ConvertRGB, Resize shape, ImgToArray, ExpandDims,
       PreprocessInput], Inl e)"
  by (simp add: infer_def bind_io_def call_def)

lemma infer_cut_predict:
  "read up = Inr b \<Longrightarrow> Image_open L b = Inr i1 \<Longrightarrow> convert_RGB L i1 = Inr i2 \<Longrightarrow>
   resize L i2 shape = Inr i3 \<Longrightarrow> img_to_array L i3 = Inr a1 \<Longrightarrow>
   expand_dims L a1 = Inr a2 \<Longrightarrow> preprocess_input L a2 = Inr a3 \<Longrightarrow>
   model_predict m a3 = Inl e \<Longrightarrow>
   infer L m shape up = (inference_steps shape, Inl e)"
  by (simp add: infer_def bind_io_def call_def inference_steps_def)

lemma infer_cut_score:
  "read up = Inr b \<Longrightarrow> Image_open L b = Inr i1 \<Longrightarrow> convert_RGB L i1 = Inr i2 \<Longrightarrow>
   resize L i2 shape = Inr i3 \<Longrightarrow> img_to_array L i3 = Inr a1 \<Longrightarrow>
   expand_dims L a1 = Inr a2 \<Longrightarrow> preprocess_input L a2 = Inr a3 \<Longrightarrow>
   model_predict m a3 = Inr preds \<Longrightarrow>
   infer L m shape up = (inference_steps shape, item00 preds)"
  by (simp add: infer_def bind_io_def call_def inference_steps_def)

subsection \<open>The label\<close>



subsection \<open>The successful response\<close>

text \<open>
  Claim C2. A response of \<open>predict\<close> that is not an error response (it has no \<open>'error'\<close> key)
  has status 200 and is a JSON object with exactly the keys \<open>'prediction'\<close>, a label, and
  \<open>'confidence'\<close>, a float.
\<close>

theorem predict_success_shape:
  assumes "predict L g rq = (t, Inr r)" and "json_get r ''error'' = None"
  shows "status r = 200 \<and> json_keys r = [''prediction'', ''confidence''] \<and>
         (\<exists>lab c. payload r = Json [(''prediction'', JStr lab), (''confidence'', JNum c)])"
proof (cases L g rq rule: predict_result_cases)
  case (returned m up t' score)
  with assms(1) show ?thesis by (auto simp: json_keys_def)
qed (use assms in auto)

theorem predict_success_shape_witness:
  "predict sample_libs sample_globals sample_request =
     (inference_steps [Some 299, Some 299],
      Inr \<lparr>payload = Json [(''prediction'', JStr label_cat), (''confidence'', JNum (Finite (1 / 2)))],
           status = 200\<rparr>) \<and>
   json_get \<lparr>payload = Json [(''prediction'', JStr label_cat), (''confidence'', JNum (Finite (1 / 2)))],
             status = 200\<rparr> ''error'' = None \<and>
   status \<lparr>payload = Json [(''prediction'', JStr label_cat), (''confidence'', JNum (Finite (1 / 2)))],
           status = 200\<rparr> = 200"
proof -
  have p: "predict sample_libs sample_globals sample_request =
     (inference_steps [Some 299, Some 299],
      Inr \<lparr>payload = Json [(''prediction'', JStr label_cat), (''confidence'', JNum (Finite (1 / 2)))],
           status = 200\<rparr>)"
    using predict_accepted_ok [of sample_globals sample_model sample_request sample_file
        sample_libs "inference_steps [Some 299, Some 299]" "Finite (1 / 2)"] sample_infer
    by (simp add: sample_globals_def sample_request_def sample_file_def label_and_confidence_def
        round_double_half)
  have e: "json_get \<lparr>payload = Json [(''prediction'', JStr label_cat),
      (''confidence'', JNum (Finite (1 / 2)))], status = 200\<rparr> ''error'' = None"
    by (simp add: json_get_def)
  from predict_success_shape [OF p e] p e show ?thesis by simp
qed

subsection \<open>The confidence\<close>




subsection \<open>Rejected requests\<close>

text \<open>
  Claim C5. \<open>predict\<close> answers with an error object and without making any call of the
  inference path exactly when the model is not loaded (status 500), the request has no
  \<open>'file'\<close> part (status 400), or the file's name is empty (status 400), the conditions
  being tested in this order; in every other case the inference path is entered, its
  first call being the read of the upload.
\<close>

theorem predict_rejections:
  "(model g = None \<longrightarrow>
      predict L g rq = ([], Inr (error_response msg_model_not_loaded 500)))
   \<and> (model g \<noteq> None \<and> map_of (files rq) ''file'' = None \<longrightarrow>
      predict L g rq = ([], Inr (error_response msg_no_file_part 400)))
   \<and> (model g \<noteq> None \<and> map_of (files rq) ''file'' = Some up \<and> filename up = [] \<longrightarrow>
      predict L g rq = ([], Inr (error_response msg_no_filename 400)))
   \<and> (model g \<noteq> None \<and> map_of (files rq) ''file'' = Some up \<and> filename up \<noteq> [] \<longrightarrow>
      (\<exists>t. fst (predict L g rq) = FileRead # t))
   \<and> (fst (predict L g rq) = []) =
      (model g = None \<or> map_of (files rq) ''file'' = None \<or>
       (\<exists>f. map_of (files rq) ''file'' = Some f \<and> filename f = []))
   \<and> (map_of (files rq) ''file'' = None) = (''file'' \<notin> fst ` set (files rq))"
proof -
  have nonempty: "\<exists>t'. t = FileRead # t'" if "infer L m sh f = (t, res)" for m sh f t res
  proof (cases res)
    case (Inl e)
    with that have "t \<noteq> [] \<and> hd t = FileRead" using infer_raised by blast
    then show ?thesis by (cases t) auto
  next
    case (Inr score)
    with that have "t = inference_steps sh" using infer_returned by blast
    then show ?thesis by (simp add: inference_steps_def)
  qed
  have key: "(map_of (files rq) ''file'' = None) = (''file'' \<notin> fst ` set (files rq))"
    by (rule map_of_eq_None_iff)
  have main: "(model g = None \<longrightarrow>
      predict L g rq = ([], Inr (error_response msg_model_not_loaded 500)))
   \<and> (model g \<noteq> None \<and> map_of (files rq) ''file'' = None \<longrightarrow>
      predict L g rq = ([], Inr (error_response msg_no_file_part 400)))
   \<and> (model g \<noteq> None \<and> map_of (files rq) ''file'' = Some up \<and> filename up = [] \<longrightarrow>
      predict L g rq = ([], Inr (error_response msg_no_filename 400)))
   \<and> (model g \<noteq> None \<and> map_of (files rq) ''file'' = Some up \<and> filename up \<noteq> [] \<longrightarrow>
      (\<exists>t. fst (predict L g rq) = FileRead # t))
   \<and> (fst (predict L g rq) = []) =
      (model g = None \<or> map_of (files rq) ''file'' = None \<or>
       (\<exists>f. map_of (files rq) ''file'' = Some f \<and> filename f = []))"
  proof (cases L g rq rule: predict_result_cases)
    case unloaded
    then show ?thesis by auto
  next
    case (no_part m)
    then show ?thesis by auto
  next
    case (no_name m up')
    then show ?thesis by auto
  next
    case (returned m up' t score)
    then show ?thesis using nonempty [OF returned(4)] by auto
  next
    case (caught m up' t e)
    then show ?thesis using nonempty [OF caught(4)] by auto
  next
    case (propagated m up' t e)
    then show ?thesis using nonempty [OF propagated(4)] by auto
  qed
  show ?thesis using main key by blast
qed

theorem predict_rejections_witness:
  "predict sample_libs unloaded_globals sample_request =
     ([], Inr (error_response msg_model_not_loaded 500)) \<and>
   predict sample_libs sample_globals empty_request =
     ([], Inr (error_response msg_no_file_part 400)) \<and>
   predict sample_libs sample_globals unnamed_request =
     ([], Inr (error_response msg_no_filename 400)) \<and>
   (\<exists>t. fst (predict sample_libs sample_globals sample_request) = FileRead # t)"
proof -
  have a: "predict sample_libs unloaded_globals sample_request =
      ([], Inr (error_response msg_model_not_loaded 500))"
    using predict_rejections [of unloaded_globals sample_libs sample_request sample_file]
    by (simp add: unloaded_globals_def)
  have b: "predict sample_libs sample_globals empty_request =
      ([], Inr (error_response msg_no_file_part 400))"
    using predict_rejections [of sample_globals sample_libs empty_request sample_file]
    by (simp add: sample_globals_def empty_request_def)
  have c: "predict sample_libs sample_globals unnamed_request =
      ([], Inr (error_response msg_no_filename 400))"
    using predict_rejections [of sample_globals sample_libs unnamed_request unnamed_file]
    by (simp add: sample_globals_def unnamed_request_def unnamed_file_def)
  have d: "\<exists>t. fst (predict sample_libs sample_globals sample_request) = FileRead # t"
    using predict_rejections [of sample_globals sample_libs sample_request sample_file]
    by (simp add: sample_globals_def sample_request_def sample_file_def)
  from a b c d show ?thesis by simp
qed

subsection \<open>The steps of the inference path\<close>

text \<open>
  Claim C4, as stated, fails: an accepted upload need not reach the forward pass. With
  libraries that cannot decode the upload, the request passes the three tests of
  \<open>predict\<close>, the calls made are the read and the decoding only, the model is not run, and
  the answer is the error response with status 500.
\<close>

theorem predict_steps_counterexample:
  "model sample_globals = Some sample_model \<and>
   map_of (files sample_request) ''file'' = Some sample_file \<and>
   filename sample_file \<noteq> [] \<and>
   predict undecodable_libs sample_globals sample_request =
     ([FileRead, ImageOpen], Inr (error_response ''cannot identify image file'' 500)) \<and>
   count_list (fst (predict undecodable_libs sample_globals sample_request)) ModelPredict = 0"
  using undecodable_predict
  by (simp add: sample_globals_def sample_request_def sample_file_def)

text \<open>
  Claim C4, amended. For every upload that passes the three tests, \<open>predict\<close> makes these
  calls in order, each on the value the one before it returned: read, decode, convert to
  RGB, resize to \<open>input_shape\<close>, convert to an array, add the batch axis, apply the Xception
  preprocessing, run the model. The first call that raises ends the sequence: the calls
  made are exactly those up to and including it, no later call is made, and \<open>predict\<close>
  yields what lines 141 and 142 make of the raised object. The model is run at most once.
  When every call returns and the array of predictions has an entry \<open>[0][0]\<close>, all the calls
  are made, the model is run exactly once, and the response is formatted from that entry;
  when the array has no such entry, all the calls were made and the \<open>IndexError\<close> is
  treated as any raised object.
\<close>

theorem predict_steps_in_order:
  assumes "model g = Some m" and "map_of (files rq) ''file'' = Some up" and "filename up \<noteq> []"
  shows "prefix (fst (predict L g rq)) (inference_steps (input_shape g)) \<and>
         fst (predict L g rq) \<noteq> [] \<and>
         count_list (fst (predict L g rq)) ModelPredict \<le> 1 \<and>
         (\<forall>b i1 i2 i3 a1 a2 a3 preds score.
            read up = Inr b \<and> Image_open L b = Inr i1 \<and> convert_RGB L i1 = Inr i2 \<and>
            resize L i2 (input_shape g) = Inr i3 \<and> img_to_array L i3 = Inr a1 \<and>
            expand_dims L a1 = Inr a2 \<and> preprocess_input L a2 = Inr a3 \<and>
            model_predict m a3 = Inr preds \<and> item00 preds = Inr score \<longrightarrow>
            predict L g rq =
              (inference_steps (input_shape g),
               Inr (jsonify [(''prediction'', JStr (fst (label_and_confidence score))),
                             (''confidence'', JNum (snd (label_and_confidence score)))])) \<and>
            count_list (fst (predict L g rq)) ModelPredict = 1) \<and>
         (\<forall>e. read up = Inl e \<longrightarrow> predict L g rq = ([FileRead], after_raise e)) \<and>
         (\<forall>b e. read up = Inr b \<and> Image_open L b = Inl e \<longrightarrow>
            predict L g rq = ([FileRead, ImageOpen], after_raise e)) \<and>
         (\<forall>b i1 e. read up = Inr b \<and> Image_open L b = Inr i1 \<and> convert_RGB L i1 = Inl e \<longrightarrow>
            predict L g rq = ([FileRead, ImageOpen, ConvertRGB], after_raise e)) \<and>
         (\<forall>b i1 i2 e.
            read up = Inr b \<and> Image_open L b = Inr i1 \<and> convert_RGB L i1 = Inr i2 \<and>
            resize L i2 (input_shape g) = Inl e \<longrightarrow>
            predict L g rq =
              ([FileRead, ImageOpen, ConvertRGB, Resize (input_shape g)], after_raise e)) \<and>
         (\<forall>b i1 i2 i3 e.
            read up = Inr b \<and> Image_open L b = Inr i1 \<and> convert_RGB L i1 = Inr i2 \<and>
            resize L i2 (input_shape g) = Inr i3 \<and> img_to_array L i3 = Inl e \<longrightarrow>
            predict L g rq =
              ([FileRead, ImageOpen, ConvertRGB, Resize (input_shape g), ImgToArray],
               after_raise e)) \<and>
         (\<forall>b i1 i2 i3 a1 e.
            read up = Inr b \<and> Image_open L b = Inr i1 \<and> convert_RGB L i1 = Inr i2 \<and>
            resize L i2 (input_shape g) = Inr i3 \<and> img_to_array L i3 = Inr a1 \<and>
            expand_dims L a1 = Inl e \<longrightarrow>
            predict L g rq =
              ([FileRead, ImageOpen, ConvertRGB, Resize (input_shape g), ImgToArray,
                ExpandDims], after_raise e)) \<and>
         (\<forall>b i1 i2 i3 a1 a2 e.
            read up = Inr b \<and> Image_open L b = Inr i1 \<and> convert_RGB L i1 = Inr i2 \<and>
            resize L i2 (input_shape g) = Inr i3 \<and> img_to_array L i3 = Inr a1 \<and>
            expand_dims L a1 = Inr a2 \<and> preprocess_input L a2 = Inl e \<longrightarrow>
            predict L g rq =
              ([FileRead, ImageOpen, ConvertRGB, Resize (input_shape g), ImgToArray,
                ExpandDims, PreprocessInput], after_raise e)) \<and>
         (\<forall>b i1 i2 i3 a1 a2 a3 e.
            read up = Inr b \<and> Image_open L b = Inr i1 \<and> convert_RGB L i1 = Inr i2 \<and>
            resize L i2 (input_shape g) = Inr i3 \<and> img_to_array L i3 = Inr a1 \<and>
            expand_dims L a1 = Inr a2 \<and> preprocess_input L a2 = Inr a3 \<and>
            model_predict m a3 = Inl e \<longrightarrow>
            predict L g rq = (inference_steps (input_shape g), after_raise e)) \<and>
         (\<forall>b i1 i2 i3 a1 a2 a3 preds e.
            read up = Inr b \<and> Image_open L b = Inr i1 \<and> convert_RGB L i1 = Inr i2 \<and>
            resize L i2 (input_shape g) = Inr i3 \<and> img_to_array L i3 = Inr a1 \<and>
            expand_dims L a1 = Inr a2 \<and> preprocess_input L a2 = Inr a3 \<and>
            model_predict m a3 = Inr preds \<and> item00 preds = Inl e \<longrightarrow>
            predict L g rq = (inference_steps (input_shape g), after_raise e))"
proof -
  have tr: "fst (predict L g rq) = fst (infer L m (input_shape g) up)"
    using assms by (rule predict_trace_accepted)
  have p: "prefix (fst (predict L g rq)) (inference_steps (input_shape g))"
    unfolding tr by (rule infer_trace_prefix)
  have ne: "fst (predict L g rq) \<noteq> []"
    unfolding tr using infer_starts_with_read [of L m "input_shape g" up] by auto
  have "count_list (fst (predict L g rq)) ModelPredict
      \<le> count_list (inference_steps (input_shape g)) ModelPredict"
    using p by (rule prefix_count_list_le)
  then have c: "count_list (fst (predict L g rq)) ModelPredict \<le> 1"
    by (simp add: inference_steps_def)
  have s: "predict L g rq =
              (inference_steps (input_shape g),
               Inr (jsonify [(''prediction'', JStr (fst (label_and_confidence score))),
                             (''confidence'', JNum (snd (label_and_confidence score)))])) \<and>
            count_list (fst (predict L g rq)) ModelPredict = 1"
    if "read up = Inr b \<and> Image_open L b = Inr i1 \<and> convert_RGB L i1 = Inr i2 \<and>
            resize L i2 (input_shape g) = Inr i3 \<and> img_to_array L i3 = Inr a1 \<and>
            expand_dims L a1 = Inr a2 \<and> preprocess_input L a2 = Inr a3 \<and>
            model_predict m a3 = Inr preds \<and> item00 preds = Inr score"
    for b i1 i2 i3 a1 a2 a3 preds score
  proof -
    have "infer L m (input_shape g) up = (inference_steps (input_shape g), Inr score)"
      unfolding infer_chain using that by blast
    from predict_accepted_ok [OF assms this] show ?thesis
      by (simp add: jsonify_def inference_steps_def)
  qed
  note R = predict_accepted_raised [OF assms]
  have r1: "predict L g rq = ([FileRead], after_raise e)" if "read up = Inl e" for e
    using that by (intro R infer_cut_read)
  have r2: "predict L g rq = ([FileRead, ImageOpen], after_raise e)"
    if "read up = Inr b \<and> Image_open L b = Inl e" for b e
    using that by (intro R infer_cut_open [of up b]) simp_all
  have r3: "predict L g rq = ([FileRead, ImageOpen, ConvertRGB], after_raise e)"
    if "read up = Inr b \<and> Image_open L b = Inr i1 \<and> convert_RGB L i1 = Inl e" for b i1 e
    using that by (intro R infer_cut_convert [of up b L i1]) simp_all
  have r4: "predict L g rq =
      ([FileRead, ImageOpen, ConvertRGB, Resize (input_shape g)], after_raise e)"
    if "read up = Inr b \<and> Image_open L b = Inr i1 \<and> convert_RGB L i1 = Inr i2 \<and>
        resize L i2 (input_shape g) = Inl e" for b i1 i2 e
    using that by (intro R infer_cut_resize [of up b L i1 i2]) simp_all
  have r5: "predict L g rq =
      ([FileRead, ImageOpen, ConvertRGB, Resize (input_shape g), ImgToArray], after_raise e)"
    if "read up = Inr b \<and> Image_open L b = Inr i1 \<and> convert_RGB L i1 = Inr i2 \<and>
        resize L i2 (input_shape g) = Inr i3 \<and> img_to_array L i3 = Inl e" for b i1 i2 i3 e
    using that by (intro R infer_cut_to_array [of up b L i1 i2 _ i3]) simp_all
  have r6: "predict L g rq =
      ([FileRead, ImageOpen, ConvertRGB, Resize (input_shape g), ImgToArray, ExpandDims],
       after_raise e)"
    if "read up = Inr b \<and> Image_open L b = Inr i1 \<and> convert_RGB L i1 = Inr i2 \<and>
        resize L i2 (input_shape g) = Inr i3 \<and> img_to_array L i3 = Inr a1 \<and>
        expand_dims L a1 = Inl e" for b i1 i2 i3 a1 e
    using that by (intro R infer_cut_expand [of up b L i1 i2 _ i3 a1]) simp_all
  have r7: "predict L g rq =
      ([FileRead, ImageOpen, ConvertRGB, Resize (input_shape g), ImgToArray, ExpandDims,
        PreprocessInput], after_raise e)"
    if "read up = Inr b \<and> Image_open L b = Inr i1 \<and> convert_RGB L i1 = Inr i2 \<and>
        resize L i2 (input_shape g) = Inr i3 \<and> img_to_array L i3 = Inr a1 \<and>
        expand_dims L a1 = Inr a2 \<and> preprocess_input L a2 = Inl e" for b i1 i2 i3 a1 a2 e
    using that by (intro R infer_cut_preprocess [of up b L i1 i2 _ i3 a1 a2]) simp_all
  have r8: "predict L g rq = (inference_steps (input_shape g), after_raise e)"
    if "read up = Inr b \<and> Image_open L b = Inr i1 \<and> convert_RGB L i1 = Inr i2 \<and>
        resize L i2 (input_shape g) = Inr i3 \<and> img_to_array L i3 = Inr a1 \<and>
        expand_dims L a1 = Inr a2 \<and> preprocess_input L a2 = Inr a3 \<and>
        model_predict m a3 = Inl e" for b i1 i2 i3 a1 a2 a3 e
    using that by (intro R infer_cut_predict [of up b L i1 i2 _ i3 a1 a2 a3]) simp_all
  have r9: "predict L g rq = (inference_steps (input_shape g), after_raise e)"
    if "read up = Inr b \<and> Image_open L b = Inr i1 \<and> convert_RGB L i1 = Inr i2 \<and>
        resize L i2 (input_shape g) = Inr i3 \<and> img_to_array L i3 = Inr a1 \<and>
        expand_dims L a1 = Inr a2 \<and> preprocess_input L a2 = Inr a3 \<and>
        model_predict m a3 = Inr preds \<and> item00 preds = Inl e" for b i1 i2 i3 a1 a2 a3 preds e
  proof -
    have "infer L m (input_shape g) up = (inference_steps (input_shape g), item00 preds)"
      using that by (intro infer_cut_score [of up b L i1 i2 _ i3 a1 a2 a3]) simp_all
    with that show ?thesis by (intro R) simp
  qed
  show ?thesis
    apply (intro conjI allI impI)
    subgoal by (rule p)
    subgoal by (rule ne)
    subgoal by (rule c)
    subgoal premises h by (rule conjunct1 [OF s [OF h]])
    subgoal premises h by (rule conjunct2 [OF s [OF h]])
    subgoal by (rule r1)
    subgoal by (rule r2)
    subgoal by (rule r3)
    subgoal by (rule r4)
    subgoal by (rule r5)
    subgoal by (rule r6)
    subgoal by (rule r7)
    subgoal by (rule r8)
    subgoal by (rule r9)
    done
qed

theorem predict_steps_in_order_witness:
  "model sample_globals = Some sample_model \<and>
   map_of (files sample_request) ''file'' = Some sample_file \<and>
   filename sample_file \<noteq> [] \<and>
   read sample_file = Inr 0 \<and> Image_open sample_libs 0 = Inr 0 \<and>
   convert_RGB sample_libs 0 = Inr 0 \<and>
   resize sample_libs 0 (input_shape sample_globals) = Inr 0 \<and>
   img_to_array sample_libs 0 = Inr 0 \<and> expand_dims sample_libs 0 = Inr 0 \<and>
   preprocess_input sample_libs 0 = Inr 0 \<and>
   model_predict sample_model 0 = Inr [[Finite (1 / 2)]] \<and>
   item00 [[Finite (1 / 2)]] = Inr (Finite (1 / 2)) \<and>
   fst (predict sample_libs sample_globals sample_request) =
     [FileRead, ImageOpen, ConvertRGB, Resize [Some 299, Some 299], ImgToArray, ExpandDims,
      PreprocessInput, ModelPredict] \<and>
   count_list (fst (predict sample_libs sample_globals sample_request)) ModelPredict = 1 \<and>
   Image_open undecodable_libs 0 = Inl (Raised True ''cannot identify image file'') \<and>
   predict undecodable_libs sample_globals sample_request =
     ([FileRead, ImageOpen], Inr (error_response ''cannot identify image file'' 500))"
proof -
  have h1: "model sample_globals = Some sample_model" by (simp add: sample_globals_def)
  have h2: "map_of (files sample_request) ''file'' = Some sample_file"
    by (simp add: sample_request_def)
  have h3: "filename sample_file \<noteq> []" by (simp add: sample_file_def)
  have ch: "read sample_file = Inr 0 \<and> Image_open sample_libs 0 = Inr 0 \<and>
      convert_RGB sample_libs 0 = Inr 0 \<and>
      resize sample_libs 0 (input_shape sample_globals) = Inr 0 \<and>
      img_to_array sample_libs 0 = Inr 0 \<and> expand_dims sample_libs 0 = Inr 0 \<and>
      preprocess_input sample_libs 0 = Inr 0 \<and>
      model_predict sample_model 0 = Inr [[Finite (1 / 2)]] \<and>
      item00 [[Finite (1 / 2)]] = Inr (Finite (1 / 2))"
    by (simp add: sample_file_def sample_libs_def sample_model_def item00_def)
  note all_return =
    predict_steps_in_order [OF h1 h2 h3, of sample_libs, THEN conjunct2, THEN conjunct2,
      THEN conjunct2, THEN conjunct1]
  from all_return ch
  have "predict sample_libs sample_globals sample_request =
      (inference_steps (input_shape sample_globals),
       Inr (jsonify [(''prediction'', JStr (fst (label_and_confidence (Finite (1 / 2))))),
                     (''confidence'', JNum (snd (label_and_confidence (Finite (1 / 2)))))])) \<and>
      count_list (fst (predict sample_libs sample_globals sample_request)) ModelPredict = 1"
    by blast
  then have ok: "fst (predict sample_libs sample_globals sample_request) =
      [FileRead, ImageOpen, ConvertRGB, Resize [Some 299, Some 299], ImgToArray, ExpandDims,
       PreprocessInput, ModelPredict] \<and>
      count_list (fst (predict sample_libs sample_globals sample_request)) ModelPredict = 1"
    by (simp add: inference_steps_def sample_globals_def)
  have un: "read sample_file = Inr 0 \<and>
      Image_open undecodable_libs 0 = Inl (Raised True ''cannot identify image file'')"
    by (simp add: sample_file_def undecodable_libs_def)
  note decoding_raises =
    predict_steps_in_order [OF h1 h2 h3, of undecodable_libs, THEN conjunct2, THEN conjunct2,
      THEN conjunct2, THEN conjunct2, THEN conjunct2, THEN conjunct1]
  from decoding_raises un
  have "predict undecodable_libs sample_globals sample_request =
      ([FileRead, ImageOpen], after_raise (Raised True ''cannot identify image file''))"
    by blast
  then have cut: "predict undecodable_libs sample_globals sample_request =
      ([FileRead, ImageOpen], Inr (error_response ''cannot identify image file'' 500))"
    by (simp add: after_raise_def)
  from h1 h2 h3 ch ok un cut show ?thesis by simp
qed

subsection \<open>Raised objects\<close>

text \<open>
  Claim C6, as stated, fails: \<open>except Exception\<close> does not handle an object that is not an
  instance of \<open>Exception\<close>. A \<open>SystemExit\<close> raised inside \<open>model.predict\<close> leaves \<open>predict\<close>
  as it was raised.
\<close>

theorem predict_catches_counterexample:
  "model exiting_globals = Some exiting_model \<and>
   map_of (files sample_request) ''file'' = Some sample_file \<and>
   filename sample_file \<noteq> [] \<and>
   model_predict exiting_model 0 = Inl (Raised False ''1'') \<and>
   snd (predict sample_libs exiting_globals sample_request) = Inl (Raised False ''1'')"
  using exiting_predict
  by (simp add: exiting_globals_def sample_request_def sample_file_def exiting_model_def)

text \<open>
  Claim C6, amended. An object that \<open>predict\<close> lets propagate is never an instance of
  \<open>Exception\<close>: an instance of \<open>Exception\<close> raised on the inference path (reading, decoding,
  preparing the array, running the model, reading the score) is answered with the JSON
  object \<open>{'error': str(e)}\<close> and status 500, and any other raised object propagates. An
  error response of \<open>predict\<close> has no \<open>'prediction'\<close> key, and its status is 400 or 500.
\<close>

theorem predict_catches_Exception:
  "(\<forall>e. snd (predict L g rq) = Inl e \<longrightarrow> \<not> is_Exception e)
   \<and> (model g = Some m \<and> map_of (files rq) ''file'' = Some up \<and> filename up \<noteq> [] \<and>
      infer L m (input_shape g) up = (t, Inl e) \<longrightarrow>
        predict L g rq =
          (if is_Exception e then (t, Inr (error_response (exn_str e) 500)) else (t, Inl e)))
   \<and> (\<forall>r. snd (predict L g rq) = Inr r \<and> json_get r ''error'' \<noteq> None \<longrightarrow>
         json_get r ''prediction'' = None \<and> (status r = 400 \<or> status r = 500))"
proof (intro conjI allI impI)
  fix e'
  assume "snd (predict L g rq) = Inl e'"
  then show "\<not> is_Exception e'"
    by (cases L g rq rule: predict_result_cases) auto
next
  assume "model g = Some m \<and> map_of (files rq) ''file'' = Some up \<and> filename up \<noteq> [] \<and>
      infer L m (input_shape g) up = (t, Inl e)"
  then show "predict L g rq =
      (if is_Exception e then (t, Inr (error_response (exn_str e) 500)) else (t, Inl e))"
    using predict_accepted_caught [of g m rq up L t e]
      predict_accepted_propagated [of g m rq up L t e] by simp
next
  fix r
  assume a: "snd (predict L g rq) = Inr r \<and> json_get r ''error'' \<noteq> None"
  then show "json_get r ''prediction'' = None"
    by (cases L g rq rule: predict_result_cases) (auto simp: json_get_def error_response_def)
  from a show "status r = 400 \<or> status r = 500"
    by (cases L g rq rule: predict_result_cases) (auto simp: json_get_def error_response_def)
qed

theorem predict_catches_Exception_witness:
  "model sample_globals = Some sample_model \<and>
   map_of (files sample_request) ''file'' = Some sample_file \<and>
   filename sample_file \<noteq> [] \<and>
   infer undecodable_libs sample_model (input_shape sample_globals) sample_file =
     ([FileRead, ImageOpen], Inl (Raised True ''cannot identify image file'')) \<and>
   predict undecodable_libs sample_globals sample_request =
     ([FileRead, ImageOpen], Inr (error_response ''cannot identify image file'' 500)) \<and>
   json_get (error_response ''cannot identify image file'' 500) ''error'' \<noteq> None \<and>
   json_get (error_response ''cannot identify image file'' 500) ''prediction'' = None \<and>
   snd (predict sample_libs exiting_globals sample_request) = Inl (Raised False ''1'') \<and>
   \<not> is_Exception (Raised False ''1'')"
proof -
  have h: "model sample_globals = Some sample_model \<and>
      map_of (files sample_request) ''file'' = Some sample_file \<and>
      filename sample_file \<noteq> [] \<and>
      infer undecodable_libs sample_model (input_shape sample_globals) sample_file =
        ([FileRead, ImageOpen], Inl (Raised True ''cannot identify image file''))"
    by (simp add: infer_def bind_io_def call_def undecodable_libs_def sample_libs_def
        sample_file_def sample_globals_def sample_request_def)
  from predict_catches_Exception [of undecodable_libs sample_globals sample_request
      sample_model sample_file "[FileRead, ImageOpen]"
      "Raised True ''cannot identify image file''"] h
  have p: "predict undecodable_libs sample_globals sample_request =
      ([FileRead, ImageOpen], Inr (error_response ''cannot identify image file'' 500))"
    by simp
  from predict_catches_Exception [of undecodable_libs sample_globals sample_request
      sample_model sample_file "[FileRead, ImageOpen]"
      "Raised True ''cannot identify image file''"] p
  have "json_get (error_response ''cannot identify image file'' 500) ''prediction'' = None"
    by simp
  with h p exiting_predict show ?thesis by simp
qed

subsection \<open>Start-up\<close>

text \<open>
  Claim C3. If the file \<open>best_model_xception.keras\<close> exists when the module is loaded, the
  calls of start-up are the test for the file and one call of \<open>load_model\<close> on that path,
  and globals that start-up yields hold the model that call returned. If the file is
  absent, \<open>load_model\<close> is not called and start-up succeeds with \<open>model = None\<close> and
  \<open>input_shape = (299, 299)\<close>.
\<close>

theorem startup_loads_once:
  "(exists model_path \<longrightarrow>
      (\<exists>res. startup exists load_model = ([PathExists model_path, LoadModel model_path], res)) \<and>
      count_list (fst (startup exists load_model)) (LoadModel model_path) = 1 \<and>
      (\<forall>g. snd (startup exists load_model) = Inr g \<longrightarrow>
         (\<exists>m. load_model model_path = Inr m \<and> model g = Some m)))
   \<and> (\<not> exists model_path \<longrightarrow>
      startup exists load_model =
        ([PathExists model_path], Inr \<lparr>model = None, input_shape = [Some 299, Some 299]\<rparr>))
   \<and> model_path = ''best_model_xception.keras''"
  unfolding startup_def call_def bind_io_def ret_def
  by (auto simp: model_path_def split: sum.splits prod.splits)

theorem startup_loads_once_witness:
  "startup (\<lambda>p. True) (\<lambda>p. Inr sample_model) =
     ([PathExists model_path, LoadModel model_path],
      Inr \<lparr>model = Some sample_model, input_shape = [Some 299, Some 299]\<rparr>) \<and>
   count_list (fst (startup (\<lambda>p. True) (\<lambda>p. Inr sample_model))) (LoadModel model_path) = 1 \<and>
   startup (\<lambda>p. False) (\<lambda>p. Inr sample_model) =
     ([PathExists model_path], Inr \<lparr>model = None, input_shape = [Some 299, Some 299]\<rparr>)"
proof -
  have a: "startup (\<lambda>p. True) (\<lambda>p. Inr sample_model) =
     ([PathExists model_path, LoadModel model_path],
      Inr \<lparr>model = Some sample_model, input_shape = [Some 299, Some 299]\<rparr>)"
    by (simp add: startup_def call_def bind_io_def ret_def sample_model_def tuple_item_def
        tuple_slice_def)
  from startup_loads_once [of "\<lambda>p. True" "\<lambda>p. Inr sample_model"]
  have b: "count_list (fst (startup (\<lambda>p. True) (\<lambda>p. Inr sample_model))) (LoadModel model_path) = 1"
    by simp
  from startup_loads_once [of "\<lambda>p. False" "\<lambda>p. Inr sample_model"]
  have c: "startup (\<lambda>p. False) (\<lambda>p. Inr sample_model) =
     ([PathExists model_path], Inr \<lparr>model = None, input_shape = [Some 299, Some 299]\<rparr>)"
    by simp
  from a b c show ?thesis by simp
qed

subsection \<open>The page\<close>

lemma HTML_TEMPLATE_no_delimiter: "\<not> has_delimiter HTML_TEMPLATE"
  by (simp add: HTML_TEMPLATE_def)

lemma drop_final_newline_snoc: "drop_final_newline (xs @ nl) = xs"
  by (simp add: drop_final_newline_def)

lemma HTML_TEMPLATE_final_newline: "drop_final_newline HTML_TEMPLATE @ nl = HTML_TEMPLATE"
  by (simp only: HTML_TEMPLATE_def concat.simps append_Nil2 append_assoc [symmetric]
      drop_final_newline_snoc)

text \<open>
  Claim C7. Whatever the request, the globals and the template engine's treatment of
  markup, \<open>index\<close> answers with status 200 and one and the same document: the constant
  \<open>HTML_TEMPLATE\<close> as Jinja emits a source without delimiters, which is \<open>HTML_TEMPLATE\<close>
  up to its final line break.
\<close>

theorem index_serves_fixed_page:
  "index jinja g rq = ([], Inr \<lparr>payload = Html (drop_final_newline HTML_TEMPLATE), status = 200\<rparr>) \<and>
   drop_final_newline HTML_TEMPLATE @ nl = HTML_TEMPLATE"
  using HTML_TEMPLATE_no_delimiter HTML_TEMPLATE_final_newline
  by (simp add: index_def render_template_string_def bind_io_def ret_def)

subsection \<open>The globals\<close>




subsection \<open>The routes\<close>


end
